theory Spec2Isabelle
  imports Complex_Main "HOL-Library.Word" "HOL-Library.Log_Nat"
begin

section \<open>JavaScript values used by remote\_config\_service.ts\<close>

text \<open>
  A JavaScript string is a sequence of UTF-16 code units; \<open>charCodeAt\<close> reads one
  of them as a number between 0 and 65535.
\<close>

type_synonym jsstring = "16 word list"

definition js :: "string \<Rightarrow> jsstring" where
  "js s = map of_char s"

definition charCode :: "16 word \<Rightarrow> int" where
  "charCode c = uint c"

text \<open>
  A JavaScript number is an IEEE double. The finite ones are modelled by their real
  value, the three special values by constructors. The comparison operators follow
  ECMAScript: every comparison with \<open>NaN\<close> is false.
\<close>

datatype jsnum = NaN | NegInf | Fin real | PosInf

fun js_less :: "jsnum \<Rightarrow> jsnum \<Rightarrow> bool" where
  "js_less (Fin a) (Fin b) = (a < b)"
| "js_less (Fin a) PosInf = True"
| "js_less NegInf (Fin b) = True"
| "js_less NegInf PosInf = True"
| "js_less _ _ = False"

definition js_greater :: "jsnum \<Rightarrow> jsnum \<Rightarrow> bool" where
  "js_greater a b = js_less b a"

definition js_le :: "jsnum \<Rightarrow> jsnum \<Rightarrow> bool" where
  "js_le a b = (a \<noteq> NaN \<and> b \<noteq> NaN \<and> \<not> js_less b a)"

definition js_ge :: "jsnum \<Rightarrow> jsnum \<Rightarrow> bool" where
  "js_ge a b = (a \<noteq> NaN \<and> b \<noteq> NaN \<and> \<not> js_less a b)"

definition num :: "int \<Rightarrow> jsnum" where
  "num i = Fin (real_of_int i)"

subsection \<open>Integer-valued doubles\<close>

text \<open>
  The running hash of \<open>getHashPercent\<close> is a double that always holds an integer.
  \<open>roundDouble\<close> is the rounding of an exact integer result to the nearest double
  (53 significant bits, ties to even); it is the identity below \<open>2 ^ 53\<close>.
  \<open>hash << 3\<close> converts its operand with ToInt32 (the value modulo \<open>2 ^ 32\<close>, read
  as two's complement), shifts within 32 bits and gives a signed 32-bit result;
  \<open>+\<close> and \<open>-\<close> are double operations and are not truncated to 32 bits.
  \<open>%\<close> takes the sign of the dividend.
\<close>

definition roundDouble :: "int \<Rightarrow> int" where
  "roundDouble x =
     (if \<bar>x\<bar> < 2 ^ 53 then x
      else let e = nat (bitlen \<bar>x\<bar>) - 53;
               q = \<bar>x\<bar> div 2 ^ e;
               r = \<bar>x\<bar> mod 2 ^ e
           in sgn x * (if r > 2 ^ (e - 1) \<or> (r = 2 ^ (e - 1) \<and> odd q) then q + 1 else q) * 2 ^ e)"

definition js_add :: "int \<Rightarrow> int \<Rightarrow> int" where
  "js_add a b = roundDouble (a + b)"

definition js_sub :: "int \<Rightarrow> int \<Rightarrow> int" where
  "js_sub a b = roundDouble (a - b)"

definition js_shl :: "int \<Rightarrow> nat \<Rightarrow> int" where
  "js_shl x n = sint (push_bit (n mod 32) (word_of_int x :: 32 word))"

definition js_rem :: "int \<Rightarrow> int \<Rightarrow> int" where
  "js_rem a b = sgn a * (\<bar>a\<bar> mod \<bar>b\<bar>)"

section \<open>The deterministic traffic split\<close>

text \<open>
  \<^verbatim>\<open>for (let i = 0; i < seed.length; i++) { hash = (hash << 3) + hash - seed.charCodeAt(i); }\<close>
  as a recursion over the code units that are left, with the running hash as
  accumulator.
\<close>

fun hashLoop :: "jsstring \<Rightarrow> int \<Rightarrow> int" where
  "hashLoop [] hash = hash"
| "hashLoop (c # cs) hash = hashLoop cs (js_sub (js_add (js_shl hash 3) hash) (charCode c))"

definition getHashPercent :: "jsstring \<Rightarrow> int" where
  "getHashPercent seed = \<bar>js_rem (hashLoop seed 0) 100\<bar>"

definition isDestTransport :: "jsstring \<Rightarrow> jsnum \<Rightarrow> bool" where
  "isDestTransport iid rolloutPercent =
     (if length iid = 0 then False
      else js_less (num (getHashPercent iid)) rolloutPercent)"

text \<open>
  The reference computation of the specification: the same fold with every step
  carried out in 32-bit signed wrapping arithmetic, \<open>hash = hash * 9 - charCode\<close>, and
  the final value \<open>abs(hash mod 100)\<close> of the signed 32-bit result, with the
  remainder of the code (sign of the dividend).
\<close>

fun hashLoop32 :: "jsstring \<Rightarrow> 32 word \<Rightarrow> 32 word" where
  "hashLoop32 [] hash = hash"
| "hashLoop32 (c # cs) hash = hashLoop32 cs (hash * 9 - ucast c)"

definition hashPercent_int32 :: "jsstring \<Rightarrow> int" where
  "hashPercent_int32 seed = \<bar>js_rem (sint (hashLoop32 seed 0)) 100\<bar>"

section \<open>Configuration data\<close>

record RemoteConfigTemplate =
  fpr_enabled :: "jsstring option"
  fpr_log_source :: "jsstring option"
  fpr_log_endpoint_url :: "jsstring option"
  fpr_log_transport_key :: "jsstring option"
  fpr_log_transport_web_percent :: "jsstring option"
  fpr_vc_network_request_sampling_rate :: "jsstring option"
  fpr_vc_trace_sampling_rate :: "jsstring option"
  fpr_vc_session_sampling_rate :: "jsstring option"

record RemoteConfigResponse =
  entries :: "RemoteConfigTemplate option"
  state :: "jsstring option"

text \<open>
  The two records above have the fields and the types that the interfaces
  \<open>RemoteConfigTemplate\<close> and \<open>RemoteConfigResponse\<close> declare: every key is optional and
  every value is a string.

  The object literal \<open>{}\<close> of \<open>config.entries || {}\<close>: every key is absent.
\<close>

definition emptyTemplate :: RemoteConfigTemplate where
  "emptyTemplate =
     \<lparr>fpr_enabled = None, fpr_log_source = None, fpr_log_endpoint_url = None,
      fpr_log_transport_key = None, fpr_log_transport_web_percent = None,
      fpr_vc_network_request_sampling_rate = None, fpr_vc_trace_sampling_rate = None,
      fpr_vc_session_sampling_rate = None\<rparr>"

text \<open>
  \<open>SecondaryConfig\<close> has the fields of the settings it can override; its field names
  carry the prefix \<open>sc_\<close> to keep them apart from the settings' own.
\<close>

record SecondaryConfig =
  sc_loggingEnabled :: "bool option"
  sc_logSource :: "jsnum option"
  sc_logEndPointUrl :: "jsstring option"
  sc_transportKey :: "jsstring option"
  sc_shouldSendToTransport :: "bool option"
  sc_tracesSamplingRate :: "jsnum option"
  sc_networkRequestsSamplingRate :: "jsnum option"

definition SECONDARY_CONFIGS :: SecondaryConfig where
  "SECONDARY_CONFIGS =
     \<lparr>sc_loggingEnabled = Some True, sc_logSource = None, sc_logEndPointUrl = None,
      sc_transportKey = None, sc_shouldSendToTransport = Some True,
      sc_tracesSamplingRate = None, sc_networkRequestsSamplingRate = None\<rparr>"

definition NO_TEMPLATE_CONFIGS :: SecondaryConfig where
  "NO_TEMPLATE_CONFIGS =
     \<lparr>sc_loggingEnabled = None, sc_logSource = None, sc_logEndPointUrl = None,
      sc_transportKey = None, sc_shouldSendToTransport = Some False,
      sc_tracesSamplingRate = None, sc_networkRequestsSamplingRate = None\<rparr>"

datatype js_error = SyntaxError | QuotaExceededError | TypeError | AuthError | RC_NOT_OK
  | NO_PROJECT_ID | NO_API_KEY | NO_APP_ID

text \<open>
  Modelled from the spec: the settings store (\<open>SettingsService\<close>, defined in
  \<open>settings_service.ts\<close>) "exposes mutable fields" for the derived settings,
  "plus read accessors for project id, API key, app id, and config time-to-live
  (hours)". The three accessors may throw. The time-to-live is a whole number of hours
  and clock readings are whole milliseconds, all far below \<open>2 ^ 53\<close>, so the double
  arithmetic on them is exact and they are modelled as \<open>int\<close>.
\<close>

record SettingsService =
  loggingEnabled :: bool
  logSource :: jsnum
  logEndPointUrl :: jsstring
  transportKey :: jsstring
  shouldSendToTransport :: bool
  tracesSamplingRate :: jsnum
  networkRequestsSamplingRate :: jsnum
  logTraceAfterSampling :: bool
  logNetworkAfterSampling :: bool
  configTimeToLive :: int
  getProjectId :: "js_error + jsstring"
  getApiKey :: "js_error + jsstring"
  getAppId :: "js_error + jsstring"

text \<open>
  The built-in functions of the language and the constants imported from
  \<open>../constants\<close> are parameters of the model: \<open>Number\<close> on strings, \<open>String\<close> on
  integer-valued numbers, \<open>JSON.stringify\<close> and \<open>JSON.parse\<close> at the type
  \<open>RemoteConfigResponse\<close> (a parse that throws returns \<open>Inl\<close>), the two storage keys
  and \<open>SDK_VERSION\<close>.
\<close>

record platform =
  Number :: "jsstring \<Rightarrow> jsnum"
  String :: "int \<Rightarrow> jsstring"
  JSON_stringify :: "RemoteConfigResponse \<Rightarrow> jsstring"
  JSON_parse :: "jsstring \<Rightarrow> js_error + RemoteConfigResponse"
  CONFIG_LOCAL_STORAGE_KEY :: jsstring
  CONFIG_EXPIRY_LOCAL_STORAGE_KEY :: jsstring
  SDK_VERSION :: jsstring

text \<open>Truthiness of an optional string: present and not empty.\<close>

definition truthy :: "jsstring option \<Rightarrow> bool" where
  "truthy x = (case x of None \<Rightarrow> False | Some v \<Rightarrow> v \<noteq> [])"

text \<open>Truthiness of an optional number: present, not zero and not \<open>NaN\<close>.\<close>

definition truthy_num :: "jsnum option \<Rightarrow> bool" where
  "truthy_num x = (case x of None \<Rightarrow> False | Some v \<Rightarrow> v \<noteq> Fin 0 \<and> v \<noteq> NaN)"

section \<open>Applying a configuration: processConfig\<close>

text \<open>
  \<open>Math.random()\<close> is called twice, once for each sampling flag; the two values drawn
  are an argument of the model.
\<close>

record draws =
  traceDraw :: real
  networkDraw :: real

definition shouldLogAfterSampling :: "real \<Rightarrow> jsnum \<Rightarrow> bool" where
  "shouldLogAfterSampling random samplingRate = js_le (Fin random) samplingRate"

text \<open>One definition for each \<open>if\<close> statement of \<open>processConfig\<close>, in the source's order.\<close>

definition set_loggingEnabled :: "RemoteConfigTemplate \<Rightarrow> SettingsService \<Rightarrow> SettingsService" where
  "set_loggingEnabled e s =
     (case fpr_enabled e of
        Some v \<Rightarrow> s\<lparr>loggingEnabled := (v = js ''true'')\<rparr>
      | None \<Rightarrow>
          (case sc_loggingEnabled SECONDARY_CONFIGS of
             Some b \<Rightarrow> s\<lparr>loggingEnabled := b\<rparr>
           | None \<Rightarrow> s))"

definition set_logSource :: "platform \<Rightarrow> RemoteConfigTemplate \<Rightarrow> SettingsService \<Rightarrow> SettingsService" where
  "set_logSource env e s =
     (if truthy (fpr_log_source e) then s\<lparr>logSource := Number env (the (fpr_log_source e))\<rparr>
      else if truthy_num (sc_logSource SECONDARY_CONFIGS)
        then s\<lparr>logSource := the (sc_logSource SECONDARY_CONFIGS)\<rparr>
      else s)"

definition set_logEndPointUrl :: "RemoteConfigTemplate \<Rightarrow> SettingsService \<Rightarrow> SettingsService" where
  "set_logEndPointUrl e s =
     (if truthy (fpr_log_endpoint_url e) then s\<lparr>logEndPointUrl := the (fpr_log_endpoint_url e)\<rparr>
      else if truthy (sc_logEndPointUrl SECONDARY_CONFIGS)
        then s\<lparr>logEndPointUrl := the (sc_logEndPointUrl SECONDARY_CONFIGS)\<rparr>
      else s)"

definition set_transportKey :: "RemoteConfigTemplate \<Rightarrow> SettingsService \<Rightarrow> SettingsService" where
  "set_transportKey e s =
     (if truthy (fpr_log_transport_key e) then s\<lparr>transportKey := the (fpr_log_transport_key e)\<rparr>
      else if truthy (sc_transportKey SECONDARY_CONFIGS)
        then s\<lparr>transportKey := the (sc_transportKey SECONDARY_CONFIGS)\<rparr>
      else s)"

definition set_shouldSendToTransport ::
  "platform \<Rightarrow> jsstring \<Rightarrow> jsstring option \<Rightarrow> RemoteConfigTemplate \<Rightarrow> SettingsService \<Rightarrow> SettingsService" where
  "set_shouldSendToTransport env iid st e s =
     (if st = None \<or> st = Some (js ''INSTANCE_STATE_UNSPECIFIED'') \<or> st = Some (js ''NO_TEMPLATE'')
      then (case sc_shouldSendToTransport NO_TEMPLATE_CONFIGS of
              Some b \<Rightarrow> s\<lparr>shouldSendToTransport := b\<rparr>
            | None \<Rightarrow> s)
      else (case fpr_log_transport_web_percent e of
              Some p \<Rightarrow> s\<lparr>shouldSendToTransport := isDestTransport iid (Number env p)\<rparr>
            | None \<Rightarrow>
                (case sc_shouldSendToTransport SECONDARY_CONFIGS of
                   Some b \<Rightarrow> s\<lparr>shouldSendToTransport := b\<rparr>
                 | None \<Rightarrow> s)))"

definition set_networkRequestsSamplingRate ::
  "platform \<Rightarrow> RemoteConfigTemplate \<Rightarrow> SettingsService \<Rightarrow> SettingsService" where
  "set_networkRequestsSamplingRate env e s =
     (case fpr_vc_network_request_sampling_rate e of
        Some v \<Rightarrow> s\<lparr>networkRequestsSamplingRate := Number env v\<rparr>
      | None \<Rightarrow>
          (case sc_networkRequestsSamplingRate SECONDARY_CONFIGS of
             Some r \<Rightarrow> s\<lparr>networkRequestsSamplingRate := r\<rparr>
           | None \<Rightarrow> s))"

definition set_tracesSamplingRate ::
  "platform \<Rightarrow> RemoteConfigTemplate \<Rightarrow> SettingsService \<Rightarrow> SettingsService" where
  "set_tracesSamplingRate env e s =
     (case fpr_vc_trace_sampling_rate e of
        Some v \<Rightarrow> s\<lparr>tracesSamplingRate := Number env v\<rparr>
      | None \<Rightarrow>
          (case sc_tracesSamplingRate SECONDARY_CONFIGS of
             Some r \<Rightarrow> s\<lparr>tracesSamplingRate := r\<rparr>
           | None \<Rightarrow> s))"

definition set_sessionFlags :: "draws \<Rightarrow> SettingsService \<Rightarrow> SettingsService" where
  "set_sessionFlags rnd s =
     s\<lparr>logTraceAfterSampling := shouldLogAfterSampling (traceDraw rnd) (tracesSamplingRate s),
       logNetworkAfterSampling := shouldLogAfterSampling (networkDraw rnd) (networkRequestsSamplingRate s)\<rparr>"

text \<open>
  \<open>processConfig\<close> returns its argument and the settings store as it leaves it.
\<close>

definition processConfig ::
  "platform \<Rightarrow> draws \<Rightarrow> jsstring \<Rightarrow> RemoteConfigResponse option \<Rightarrow> SettingsService
     \<Rightarrow> RemoteConfigResponse option \<times> SettingsService" where
  "processConfig env rnd iid config s =
     (case config of
        None \<Rightarrow> (None, s)
      | Some cfg \<Rightarrow>
          let e = (case entries cfg of None \<Rightarrow> emptyTemplate | Some t \<Rightarrow> t);
              st = state cfg
          in (Some cfg,
              set_sessionFlags rnd
                (set_tracesSamplingRate env e
                  (set_networkRequestsSamplingRate env e
                    (set_shouldSendToTransport env iid st e
                      (set_transportKey e
                        (set_logEndPointUrl e
                          (set_logSource env e
                            (set_loggingEnabled e s)))))))))"

section \<open>The cache in local storage\<close>

text \<open>
  Modelled from the spec: the storage collaborator (\<open>Api.getInstance().localStorage\<close>,
  defined in \<open>api_service.ts\<close>) offers
  "get(key) -> string|absent, set(key, value)", and its writes "may fail (storage
  unavailable)". \<open>refuses\<close> says which writes the browser refuses; \<open>setItem\<close> throws
  on those and stores the value otherwise.
\<close>

record Storage =
  items :: "jsstring \<Rightarrow> jsstring option"
  refuses :: "jsstring \<Rightarrow> jsstring \<Rightarrow> bool"

definition getItem :: "Storage \<Rightarrow> jsstring \<Rightarrow> jsstring option" where
  "getItem ls k = items ls k"

definition setItem :: "Storage \<Rightarrow> jsstring \<Rightarrow> jsstring \<Rightarrow> js_error + Storage" where
  "setItem ls k v =
     (if refuses ls k v then Inl QuotaExceededError
      else Inr (ls\<lparr>items := (items ls)(k \<mapsto> v)\<rparr>))"

text \<open>\<open>Date.now()\<close> is the argument \<open>now\<close> of the functions that read the clock.\<close>

definition configValid :: "platform \<Rightarrow> int \<Rightarrow> jsstring \<Rightarrow> bool" where
  "configValid env now expiry = js_greater (Number env expiry) (num now)"

definition getStoredConfig ::
  "platform \<Rightarrow> int \<Rightarrow> Storage option \<Rightarrow> RemoteConfigResponse option" where
  "getStoredConfig env now localStorage =
     (case localStorage of
        None \<Rightarrow> None
      | Some ls \<Rightarrow>
          (case getItem ls (CONFIG_EXPIRY_LOCAL_STORAGE_KEY env) of
             None \<Rightarrow> None
           | Some expiryString \<Rightarrow>
               if expiryString = [] \<or> \<not> configValid env now expiryString then None
               else (case getItem ls (CONFIG_LOCAL_STORAGE_KEY env) of
                       None \<Rightarrow> None
                     | Some configStringified \<Rightarrow>
                         if configStringified = [] then None
                         else (case JSON_parse env configStringified of
                                 Inl err \<Rightarrow> None
                               | Inr configResponse \<Rightarrow> Some configResponse))))"

text \<open>
  \<open>storeConfig\<close> returns how it ended (\<open>Inl\<close>: the exception it threw) and the storage
  as it leaves it; a write that throws leaves the earlier write in place.
\<close>

definition storeConfig ::
  "platform \<Rightarrow> int \<Rightarrow> SettingsService \<Rightarrow> RemoteConfigResponse option \<Rightarrow> Storage option
     \<Rightarrow> (js_error + unit) \<times> Storage option" where
  "storeConfig env now s config localStorage =
     (case (config, localStorage) of
        (Some cfg, Some ls) \<Rightarrow>
          (case setItem ls (CONFIG_LOCAL_STORAGE_KEY env) (JSON_stringify env cfg) of
             Inl err \<Rightarrow> (Inl err, Some ls)
           | Inr ls1 \<Rightarrow>
               (case setItem ls1 (CONFIG_EXPIRY_LOCAL_STORAGE_KEY env)
                       (String env (now + configTimeToLive s * 60 * 60 * 1000)) of
                  Inl err \<Rightarrow> (Inl err, Some ls1)
                | Inr ls2 \<Rightarrow> (Inr (), Some ls2)))
      | _ \<Rightarrow> (Inr (), localStorage))"

section \<open>Fetching and resolving the configuration\<close>

record RequestBody =
  app_instance_id :: jsstring
  app_instance_id_token :: jsstring
  app_id :: jsstring
  app_version :: jsstring
  sdk_version :: jsstring

record Request =
  url :: jsstring
  http_method :: jsstring
  authorization :: jsstring
  body :: RequestBody

record Response =
  ok :: bool
  json :: "js_error + RemoteConfigResponse"

text \<open>
  What the collaborators do during one call of \<open>getConfig\<close>: the local storage (absent
  when the browser has none), how the promise of the auth token settles, how \<open>fetch\<close>
  settles for a request (\<open>Inl\<close>: it rejects), the clock when the cache is read and
  when the fetched configuration is stored, and the random numbers drawn.
\<close>

record World =
  localStorage :: "Storage option"
  getAuthTokenPromise :: "js_error + jsstring"
  fetch :: "Request \<Rightarrow> js_error + Response"
  readTime :: int
  storeTime :: int
  mathRandom :: draws

definition REMOTE_CONFIG_SDK_VERSION :: jsstring where
  "REMOTE_CONFIG_SDK_VERSION = js ''0.0.1''"

definition FIS_AUTH_PREFIX :: jsstring where
  "FIS_AUTH_PREFIX = js ''FIREBASE_INSTALLATIONS_AUTH''"

text \<open>
  The callback given to \<open>getAuthTokenPromise().then\<close>: anything thrown in it, and a
  rejected \<open>fetch\<close> or \<open>response.json()\<close>, rejects the promise it returns.
\<close>

definition fetchConfig ::
  "platform \<Rightarrow> World \<Rightarrow> SettingsService \<Rightarrow> jsstring \<Rightarrow> jsstring \<Rightarrow> js_error + RemoteConfigResponse" where
  "fetchConfig env w s iid authToken =
     (case getProjectId s of
        Inl err \<Rightarrow> Inl err
      | Inr projectId \<Rightarrow>
     (case getApiKey s of
        Inl err \<Rightarrow> Inl err
      | Inr apiKey \<Rightarrow>
     (case getAppId s of
        Inl err \<Rightarrow> Inl err
      | Inr appId \<Rightarrow>
     (case fetch w
             \<lparr>url = js ''https://firebaseremoteconfig.googleapis.com/v1/projects/'' @ projectId
                      @ js ''/namespaces/fireperf:fetch?key='' @ apiKey,
              http_method = js ''POST'',
              authorization = FIS_AUTH_PREFIX @ js '' '' @ authToken,
              body = \<lparr>app_instance_id = iid, app_instance_id_token = authToken,
                      app_id = appId, app_version = SDK_VERSION env,
                      sdk_version = REMOTE_CONFIG_SDK_VERSION\<rparr>\<rparr> of
        Inl err \<Rightarrow> Inl err
      | Inr response \<Rightarrow> if ok response then json response else Inl RC_NOT_OK))))"

text \<open>The \<open>.catch\<close> at the end of \<open>getRemoteConfig\<close> turns every rejection into \<open>undefined\<close>.\<close>

definition getRemoteConfig ::
  "platform \<Rightarrow> World \<Rightarrow> SettingsService \<Rightarrow> jsstring \<Rightarrow> js_error + RemoteConfigResponse option" where
  "getRemoteConfig env w s iid =
     (case (case getAuthTokenPromise w of
              Inl err \<Rightarrow> Inl err
            | Inr authToken \<Rightarrow> fetchConfig env w s iid authToken) of
        Inl err \<Rightarrow> Inr None
      | Inr config \<Rightarrow> Inr (Some config))"

text \<open>
  \<open>getConfig\<close> returns how its promise settles (\<open>Inr ()\<close>: it resolves, \<open>Inl err\<close>: it
  rejects with \<open>err\<close>), the settings and the storage. In
  \<^verbatim>\<open>.then(config => storeConfig(config), () => {})\<close> the second function handles a
  rejection of the promise before it; an exception thrown by the first function rejects
  the promise that \<open>then\<close> returns.
\<close>

definition getConfig ::
  "platform \<Rightarrow> World \<Rightarrow> jsstring \<Rightarrow> SettingsService
     \<Rightarrow> (js_error + unit) \<times> SettingsService \<times> Storage option" where
  "getConfig env w iid s =
     (case getStoredConfig env (readTime w) (localStorage w) of
        Some config \<Rightarrow>
          (Inr (), snd (processConfig env (mathRandom w) iid (Some config) s), localStorage w)
      | None \<Rightarrow>
          (case getRemoteConfig env w s iid of
             Inl err \<Rightarrow> (Inr (), s, localStorage w)
           | Inr fetched \<Rightarrow>
               (let (config, s') = processConfig env (mathRandom w) iid fetched s;
                    (result, ls') = storeConfig env (storeTime w) s' config (localStorage w)
                in (result, s', ls'))))"

section \<open>Notions used in the statements\<close>

text \<open>The value of a key of \<open>response.entries\<close>; absent when \<open>entries\<close> itself is absent.\<close>

definition entry :: "(RemoteConfigTemplate \<Rightarrow> jsstring option) \<Rightarrow> RemoteConfigResponse \<Rightarrow> jsstring option" where
  "entry key cfg = (case entries cfg of None \<Rightarrow> None | Some t \<Rightarrow> key t)"

text \<open>The settings with the two per-session sampling flags, which depend on the random draws, overwritten.\<close>

definition withoutDraws :: "SettingsService \<Rightarrow> SettingsService" where
  "withoutDraws s = s\<lparr>logTraceAfterSampling := False, logNetworkAfterSampling := False\<rparr>"

subsection \<open>Concrete inputs\<close>

text \<open>
  The response of the specification's example,
  \<^verbatim>\<open>{entries: {fpr_log_transport_web_percent: "50"}, state: "UPDATE"}\<close>, a response
  whose \<open>fpr_log_source\<close> is the empty string, settings as they might be before a
  configuration is applied, an empty storage that accepts every write and one that
  refuses every write.
\<close>

definition example_response :: RemoteConfigResponse where
  "example_response =
     \<lparr>entries = Some (emptyTemplate\<lparr>fpr_log_transport_web_percent := Some (js ''50'')\<rparr>),
      state = Some (js ''UPDATE'')\<rparr>"

definition empty_source_response :: RemoteConfigResponse where
  "empty_source_response =
     \<lparr>entries = Some (emptyTemplate\<lparr>fpr_log_source := Some []\<rparr>), state = Some (js ''UPDATE'')\<rparr>"

definition example_settings :: SettingsService where
  "example_settings =
     \<lparr>loggingEnabled = False, logSource = Fin 462, logEndPointUrl = js ''https://log.example'',
      transportKey = js ''key'', shouldSendToTransport = False,
      tracesSamplingRate = Fin 1, networkRequestsSamplingRate = Fin 1,
      logTraceAfterSampling = False, logNetworkAfterSampling = False,
      configTimeToLive = 12,
      getProjectId = Inr (js ''project''), getApiKey = Inr (js ''apikey''),
      getAppId = Inr (js ''app'')\<rparr>"

definition example_draws :: draws where
  "example_draws = \<lparr>traceDraw = 1 / 2, networkDraw = 1 / 4\<rparr>"

definition empty_storage :: Storage where
  "empty_storage = \<lparr>items = (\<lambda>k. None), refuses = (\<lambda>k v. False)\<rparr>"

definition full_storage :: Storage where
  "full_storage = \<lparr>items = (\<lambda>k. None), refuses = (\<lambda>k v. True)\<rparr>"

text \<open>
  A platform that agrees with JavaScript on the strings and numbers of the examples:
  \<open>Number("50")\<close> is 50, \<open>Number("")\<close> is 0, \<open>String(43201000)\<close> is \<open>"43201000"\<close> and back,
  \<open>JSON.stringify\<close> of the example response is its JSON text and \<open>JSON.parse\<close> of
  that text gives the response back.
\<close>

definition example_json :: jsstring where
  \<open>example_json = js ''{"entries":{"fpr_log_transport_web_percent":"50"},"state":"UPDATE"}''\<close>

definition example_platform :: platform where
  "example_platform =
     \<lparr>Number = (\<lambda>str. if str = js ''50'' then Fin 50
                      else if str = js ''43201000'' then Fin 43201000
                      else if str = [] then Fin 0 else NaN),
      String = (\<lambda>n. if n = 43201000 then js ''43201000'' else js ''0''),
      JSON_stringify = (\<lambda>cfg. if cfg = example_response then example_json else js ''{}''),
      JSON_parse = (\<lambda>str. if str = example_json then Inr example_response else Inl SyntaxError),
      CONFIG_LOCAL_STORAGE_KEY = js ''@firebase/performance/config'',
      CONFIG_EXPIRY_LOCAL_STORAGE_KEY = js ''@firebase/performance/configexpire'',
      SDK_VERSION = js ''0.0.0''\<rparr>"

text \<open>
  A run in which nothing is cached, the auth token and the fetch succeed with the
  example response, and the storage refuses every write; and the same run with a
  storage that accepts them.
\<close>

definition example_fetch :: "Request \<Rightarrow> js_error + Response" where
  "example_fetch request = Inr \<lparr>ok = True, json = Inr example_response\<rparr>"

definition full_storage_world :: World where
  "full_storage_world =
     \<lparr>localStorage = Some full_storage, getAuthTokenPromise = Inr (js ''token''),
      fetch = example_fetch, readTime = 1000, storeTime = 1000, mathRandom = example_draws\<rparr>"

definition example_world :: World where
  "example_world = full_storage_world\<lparr>localStorage := Some empty_storage\<rparr>"

text \<open>
  The storage after the example response has been stored at time 1000 with a
  time-to-live of 12 hours: the expiry is \<open>1000 + 12 * 3600000 = 43201000\<close>.
\<close>

definition cached_storage :: Storage where
  "cached_storage =
     empty_storage\<lparr>items := (items empty_storage)
       (CONFIG_LOCAL_STORAGE_KEY example_platform \<mapsto> example_json,
        CONFIG_EXPIRY_LOCAL_STORAGE_KEY example_platform \<mapsto> js ''43201000'')\<rparr>"

section \<open>Auxiliary facts\<close>

lemma js_rem_100_range: "\<bar>js_rem a 100\<bar> \<le> 99"
proof -
  have "\<bar>js_rem a 100\<bar> = \<bar>sgn a\<bar> * (\<bar>a\<bar> mod 100)"
    by (simp add: js_rem_def abs_mult)
  also have "\<dots> \<le> \<bar>a\<bar> mod 100"
    by (cases "a = 0") (simp_all add: abs_sgn_eq)
  also have "\<dots> \<le> 99"
    by simp
  finally show ?thesis .
qed

lemma getHashPercent_bounds: "0 \<le> getHashPercent seed \<and> getHashPercent seed \<le> 99"
  by (simp add: getHashPercent_def js_rem_100_range)

lemma js_less_le_trans: "js_less a p \<Longrightarrow> js_le p q \<Longrightarrow> js_less a q"
  by (cases a; cases p; cases q) (auto simp: js_le_def)

lemma roundDouble_exact: "\<bar>x\<bar> < 2 ^ 53 \<Longrightarrow> roundDouble x = x"
  by (simp add: roundDouble_def)

lemma js_shl_bounds: "- (2 ^ 31) \<le> js_shl x n \<and> js_shl x n < 2 ^ 31"
  using sint_ge [of "push_bit (n mod 32) (word_of_int x :: 32 word)"]
    sint_lt [of "push_bit (n mod 32) (word_of_int x :: 32 word)"]
  by (simp add: js_shl_def)

lemma charCode_bounds: "0 \<le> charCode c \<and> charCode c \<le> 65535"
  using uint_bounded [of c] by (simp add: charCode_def)

lemma word_of_js_shl3: "(word_of_int (js_shl h 3) :: 32 word) = 8 * word_of_int h"
  by (simp add: js_shl_def push_bit_eq_mult)

lemma word_of_charCode: "(word_of_int (charCode c) :: 32 word) = ucast c"
  by (simp add: charCode_def)

text \<open>
  After \<open>k\<close> steps the running hash is at most \<open>k * (2 ^ 31 + 65535)\<close> in magnitude, so
  for a seed of up to \<open>2 ^ 21\<close> code units no sum or difference is rounded.
\<close>

lemma hash_step_exact:
  assumes h: "\<bar>h\<bar> \<le> int k * 2147549183" and k: "k < 2097152"
  shows "js_sub (js_add (js_shl h 3) h) (charCode c) = js_shl h 3 + h - charCode c"
    and "\<bar>js_shl h 3 + h - charCode c\<bar> \<le> int (Suc k) * 2147549183"
proof -
  have s: "- 2147483648 \<le> js_shl h 3" "js_shl h 3 < 2147483648"
    using js_shl_bounds [of h 3] by simp_all
  have c: "0 \<le> charCode c" "charCode c \<le> 65535"
    using charCode_bounds [of c] by simp_all
  have kk: "int k * 2147549183 \<le> 2097151 * 2147549183"
    using k by simp
  have "\<bar>js_shl h 3 + h\<bar> < 2 ^ 53"
    using s h kk by simp
  then have a: "js_add (js_shl h 3) h = js_shl h 3 + h"
    by (simp add: js_add_def roundDouble_exact)
  show b: "\<bar>js_shl h 3 + h - charCode c\<bar> \<le> int (Suc k) * 2147549183"
    using s c h by (simp add: algebra_simps)
  have "\<bar>js_shl h 3 + h - charCode c\<bar> < 2 ^ 53"
    using s c h kk by simp
  then show "js_sub (js_add (js_shl h 3) h) (charCode c) = js_shl h 3 + h - charCode c"
    by (simp add: a js_sub_def roundDouble_exact)
qed

lemma hashLoop_congruent:
  "\<bar>h\<bar> \<le> int k * 2147549183 \<Longrightarrow> k + length cs \<le> 2097152
     \<Longrightarrow> word_of_int (hashLoop cs h) = hashLoop32 cs (word_of_int h)"
proof (induction cs arbitrary: h k)
  case Nil
  then show ?case by simp
next
  case (Cons c cs)
  from Cons.prems have k: "k < 2097152" by simp
  define h' where "h' = js_shl h 3 + h - charCode c"
  have exact: "js_sub (js_add (js_shl h 3) h) (charCode c) = h'"
    and bound: "\<bar>h'\<bar> \<le> int (Suc k) * 2147549183"
    unfolding h'_def using hash_step_exact [OF Cons.prems(1) k, of c] by blast+
  have "Suc k + length cs \<le> 2097152"
    using Cons.prems(2) by simp
  with bound have ih: "word_of_int (hashLoop cs h') = hashLoop32 cs (word_of_int h')"
    by (rule Cons.IH)
  have w: "(word_of_int h' :: 32 word) = word_of_int h * 9 - ucast c"
    unfolding h'_def by (simp add: word_of_js_shl3 word_of_charCode)
  show ?case
    by (simp only: hashLoop.simps hashLoop32.simps exact ih w)
qed

lemma sint_word_of_int_32:
  "- (2 ^ 31) \<le> x \<Longrightarrow> x < 2 ^ 31 \<Longrightarrow> sint (word_of_int x :: 32 word) = x"
  by (simp add: sint_sbintrunc' signed_take_bit_int_eq_self)

lemmas hash_eval = getHashPercent_def hashPercent_int32_def js_def js_rem_def js_sub_def
  js_add_def js_shl_def roundDouble_def charCode_def

lemma SECONDARY_simps:
  "sc_loggingEnabled SECONDARY_CONFIGS = Some True"
  "sc_logSource SECONDARY_CONFIGS = None"
  "sc_logEndPointUrl SECONDARY_CONFIGS = None"
  "sc_transportKey SECONDARY_CONFIGS = None"
  "sc_shouldSendToTransport SECONDARY_CONFIGS = Some True"
  "sc_tracesSamplingRate SECONDARY_CONFIGS = None"
  "sc_networkRequestsSamplingRate SECONDARY_CONFIGS = None"
  "sc_shouldSendToTransport NO_TEMPLATE_CONFIGS = Some False"
  by (simp_all add: SECONDARY_CONFIGS_def NO_TEMPLATE_CONFIGS_def)

lemma truthy_simps: "truthy None = False" "truthy (Some v) = (v \<noteq> [])" "truthy_num None = False"
  by (simp_all add: truthy_def truthy_num_def)

lemma set_loggingEnabled_eq:
  "set_loggingEnabled e s =
     s\<lparr>loggingEnabled := (case fpr_enabled e of Some v \<Rightarrow> v = js ''true'' | None \<Rightarrow> True)\<rparr>"
  by (simp add: set_loggingEnabled_def SECONDARY_simps split: option.splits)

lemma set_logSource_eq:
  "set_logSource env e s =
     s\<lparr>logSource := (case fpr_log_source e of
                        Some v \<Rightarrow> if v = [] then logSource s else Number env v
                      | None \<Rightarrow> logSource s)\<rparr>"
  by (simp add: set_logSource_def SECONDARY_simps truthy_simps split: option.splits)

lemma set_logEndPointUrl_eq:
  "set_logEndPointUrl e s =
     s\<lparr>logEndPointUrl := (case fpr_log_endpoint_url e of
                             Some v \<Rightarrow> if v = [] then logEndPointUrl s else v
                           | None \<Rightarrow> logEndPointUrl s)\<rparr>"
  by (simp add: set_logEndPointUrl_def SECONDARY_simps truthy_simps split: option.splits)

lemma set_transportKey_eq:
  "set_transportKey e s =
     s\<lparr>transportKey := (case fpr_log_transport_key e of
                           Some v \<Rightarrow> if v = [] then transportKey s else v
                         | None \<Rightarrow> transportKey s)\<rparr>"
  by (simp add: set_transportKey_def SECONDARY_simps truthy_simps split: option.splits)

lemma set_shouldSendToTransport_eq:
  "set_shouldSendToTransport env iid st e s =
     s\<lparr>shouldSendToTransport :=
         (if st = None \<or> st = Some (js ''INSTANCE_STATE_UNSPECIFIED'') \<or> st = Some (js ''NO_TEMPLATE'')
          then False
          else (case fpr_log_transport_web_percent e of
                  Some p \<Rightarrow> isDestTransport iid (Number env p)
                | None \<Rightarrow> True))\<rparr>"
  by (simp add: set_shouldSendToTransport_def SECONDARY_simps split: option.splits)

lemma set_networkRequestsSamplingRate_eq:
  "set_networkRequestsSamplingRate env e s =
     s\<lparr>networkRequestsSamplingRate :=
         (case fpr_vc_network_request_sampling_rate e of
            Some v \<Rightarrow> Number env v
          | None \<Rightarrow> networkRequestsSamplingRate s)\<rparr>"
  by (simp add: set_networkRequestsSamplingRate_def SECONDARY_simps split: option.splits)

lemma set_tracesSamplingRate_eq:
  "set_tracesSamplingRate env e s =
     s\<lparr>tracesSamplingRate :=
         (case fpr_vc_trace_sampling_rate e of
            Some v \<Rightarrow> Number env v
          | None \<Rightarrow> tracesSamplingRate s)\<rparr>"
  by (simp add: set_tracesSamplingRate_def SECONDARY_simps split: option.splits)

lemmas set_eqs = set_loggingEnabled_eq set_logSource_eq set_logEndPointUrl_eq set_transportKey_eq
  set_shouldSendToTransport_eq set_networkRequestsSamplingRate_eq set_tracesSamplingRate_eq
  set_sessionFlags_def

lemma entries_or_empty:
  "fpr_enabled (case entries cfg of None \<Rightarrow> emptyTemplate | Some t \<Rightarrow> t) = entry fpr_enabled cfg"
  "fpr_log_source (case entries cfg of None \<Rightarrow> emptyTemplate | Some t \<Rightarrow> t) = entry fpr_log_source cfg"
  "fpr_log_endpoint_url (case entries cfg of None \<Rightarrow> emptyTemplate | Some t \<Rightarrow> t) = entry fpr_log_endpoint_url cfg"
  "fpr_log_transport_key (case entries cfg of None \<Rightarrow> emptyTemplate | Some t \<Rightarrow> t) = entry fpr_log_transport_key cfg"
  "fpr_log_transport_web_percent (case entries cfg of None \<Rightarrow> emptyTemplate | Some t \<Rightarrow> t) = entry fpr_log_transport_web_percent cfg"
  "fpr_vc_network_request_sampling_rate (case entries cfg of None \<Rightarrow> emptyTemplate | Some t \<Rightarrow> t) = entry fpr_vc_network_request_sampling_rate cfg"
  "fpr_vc_trace_sampling_rate (case entries cfg of None \<Rightarrow> emptyTemplate | Some t \<Rightarrow> t) = entry fpr_vc_trace_sampling_rate cfg"
  by (cases "entries cfg"; simp add: entry_def emptyTemplate_def)+

lemma pc_loggingEnabled:
  "loggingEnabled (snd (processConfig env rnd iid (Some cfg) s)) =
      (case entry fpr_enabled cfg of Some v \<Rightarrow> v = js ''true'' | None \<Rightarrow> True)"
  by (simp add: processConfig_def Let_def set_eqs entries_or_empty cong: option.case_cong if_cong)

lemma pc_logSource:
  "logSource (snd (processConfig env rnd iid (Some cfg) s)) =
      (case entry fpr_log_source cfg of
         Some v \<Rightarrow> if v = [] then logSource s else Number env v
       | None \<Rightarrow> logSource s)"
  by (simp add: processConfig_def Let_def set_eqs entries_or_empty cong: option.case_cong if_cong)

lemma pc_logEndPointUrl:
  "logEndPointUrl (snd (processConfig env rnd iid (Some cfg) s)) =
      (case entry fpr_log_endpoint_url cfg of
         Some v \<Rightarrow> if v = [] then logEndPointUrl s else v
       | None \<Rightarrow> logEndPointUrl s)"
  by (simp add: processConfig_def Let_def set_eqs entries_or_empty cong: option.case_cong if_cong)

lemma pc_transportKey:
  "transportKey (snd (processConfig env rnd iid (Some cfg) s)) =
      (case entry fpr_log_transport_key cfg of
         Some v \<Rightarrow> if v = [] then transportKey s else v
       | None \<Rightarrow> transportKey s)"
  by (simp add: processConfig_def Let_def set_eqs entries_or_empty cong: option.case_cong if_cong)

lemma pc_networkRequestsSamplingRate:
  "networkRequestsSamplingRate (snd (processConfig env rnd iid (Some cfg) s)) =
      (case entry fpr_vc_network_request_sampling_rate cfg of
         Some v \<Rightarrow> Number env v
       | None \<Rightarrow> networkRequestsSamplingRate s)"
  by (simp add: processConfig_def Let_def set_eqs entries_or_empty cong: option.case_cong if_cong)

lemma pc_tracesSamplingRate:
  "tracesSamplingRate (snd (processConfig env rnd iid (Some cfg) s)) =
      (case entry fpr_vc_trace_sampling_rate cfg of
         Some v \<Rightarrow> Number env v
       | None \<Rightarrow> tracesSamplingRate s)"
  by (simp add: processConfig_def Let_def set_eqs entries_or_empty cong: option.case_cong if_cong)

lemma processConfig_withoutDraws:
  "withoutDraws (snd (processConfig env rnd iid config s))
     = withoutDraws (snd (processConfig env rnd' iid config s))"
  by (cases config) (simp_all add: processConfig_def Let_def set_sessionFlags_def withoutDraws_def)

lemma getItem_setItem:
  "setItem ls k v = Inr ls' \<Longrightarrow> getItem ls' k' = (if k' = k then Some v else getItem ls k')"
  by (auto simp: setItem_def getItem_def split: if_splits)

lemma refuses_setItem:
  "setItem ls k v = Inr ls' \<Longrightarrow> refuses ls' = refuses ls"
  by (auto simp: setItem_def split: if_splits)

lemma setItem_accepted:
  "\<not> refuses ls k v \<Longrightarrow> setItem ls k v = Inr (ls\<lparr>items := (items ls)(k \<mapsto> v)\<rparr>)"
  by (simp add: setItem_def)

lemma setItem_refused:
  "refuses ls k v \<Longrightarrow> setItem ls k v = Inl QuotaExceededError"
  by (simp add: setItem_def)

lemma configValid_iff: "configValid env now e \<longleftrightarrow> js_less (num now) (Number env e)"
  by (simp add: configValid_def js_greater_def)

lemma js_less_irrefl: "\<not> js_less a a"
  by (cases a) simp_all

lemma getStoredConfig_Some_iff:
  "getStoredConfig env now (Some ls) = Some c \<longleftrightarrow>
     (\<exists>e j. getItem ls (CONFIG_EXPIRY_LOCAL_STORAGE_KEY env) = Some e \<and> e \<noteq> []
        \<and> js_less (num now) (Number env e)
        \<and> getItem ls (CONFIG_LOCAL_STORAGE_KEY env) = Some j \<and> j \<noteq> []
        \<and> JSON_parse env j = Inr c)"
  by (auto simp: getStoredConfig_def configValid_iff split: option.splits sum.splits)

lemma ms_of_hours: "(h::int) * 60 * 60 * 1000 = h * 3600000"
  by simp

lemma storeConfig_accepted:
  assumes "\<not> refuses ls (CONFIG_LOCAL_STORAGE_KEY env) (JSON_stringify env cfg)"
    and "\<not> refuses ls (CONFIG_EXPIRY_LOCAL_STORAGE_KEY env)
            (String env (now + configTimeToLive s * 3600000))"
  shows "storeConfig env now s (Some cfg) (Some ls) =
     (Inr (), Some (ls\<lparr>items := (items ls)
        (CONFIG_LOCAL_STORAGE_KEY env \<mapsto> JSON_stringify env cfg,
         CONFIG_EXPIRY_LOCAL_STORAGE_KEY env \<mapsto> String env (now + configTimeToLive s * 3600000))\<rparr>))"
  unfolding storeConfig_def ms_of_hours using assms by (auto simp: setItem_def)

lemma storeConfig_resolved:
  assumes "fst (storeConfig env now s (Some cfg) (Some ls)) = Inr ()"
  shows "\<exists>ls'. snd (storeConfig env now s (Some cfg) (Some ls)) = Some ls'
     \<and> getItem ls' (CONFIG_EXPIRY_LOCAL_STORAGE_KEY env)
         = Some (String env (now + configTimeToLive s * 3600000))"
  using assms unfolding storeConfig_def ms_of_hours
  by (auto simp: setItem_def getItem_def split: if_splits)

lemma storeConfig_absent:
  "storeConfig env now s None ls = (Inr (), ls)"
  "storeConfig env now s config None = (Inr (), None)"
  by (simp_all add: storeConfig_def split: option.splits)

lemma getRemoteConfig_resolves: "\<exists>config. getRemoteConfig env w s iid = Inr config"
  by (simp add: getRemoteConfig_def split: sum.splits)

lemma getRemoteConfig_auth_failure:
  "getAuthTokenPromise w = Inl err \<Longrightarrow> getRemoteConfig env w s iid = Inr None"
  by (simp add: getRemoteConfig_def)

lemma getRemoteConfig_fetch_failure:
  "(\<And>request. fetch w request = Inl err) \<Longrightarrow> getRemoteConfig env w s iid = Inr None"
  by (simp add: getRemoteConfig_def fetchConfig_def split: sum.splits)

lemma getConfig_without_config:
  assumes "getStoredConfig env (readTime w) (localStorage w) = None"
    and "getRemoteConfig env w s iid = Inr None"
  shows "getConfig env w iid s = (Inr (), s, localStorage w)"
  using assms by (simp add: getConfig_def processConfig_def storeConfig_absent)

lemma getConfig_cache_hit:
  assumes "getStoredConfig env (readTime w) (localStorage w) = Some config"
  shows "fst (getConfig env w iid s) = Inr ()"
  using assms by (simp add: getConfig_def)

lemma getConfig_rejects_iff:
  "fst (getConfig env w iid s) = Inl err \<longleftrightarrow>
     getStoredConfig env (readTime w) (localStorage w) = None
     \<and> (\<exists>cfg. getRemoteConfig env w s iid = Inr (Some cfg)
          \<and> fst (storeConfig env (storeTime w)
                   (snd (processConfig env (mathRandom w) iid (Some cfg) s)) (Some cfg)
                   (localStorage w)) = Inl err)"
proof (cases "getStoredConfig env (readTime w) (localStorage w)")
  case (Some config)
  then show ?thesis by (simp add: getConfig_def)
next
  case None
  obtain fetched where f: "getRemoteConfig env w s iid = Inr fetched"
    using getRemoteConfig_resolves by blast
  show ?thesis
  proof (cases fetched)
    case None
    with f \<open>getStoredConfig env (readTime w) (localStorage w) = None\<close> show ?thesis
      by (simp add: getConfig_without_config)
  next
    case (Some cfg)
    with f \<open>getStoredConfig env (readTime w) (localStorage w) = None\<close> show ?thesis
      by (simp add: getConfig_def processConfig_def Let_def split: prod.splits)
  qed
qed


lemmas example_eval = example_platform_def example_settings_def example_response_def
  example_json_def empty_storage_def full_storage_def cached_storage_def example_fetch_def
  full_storage_world_def example_world_def emptyTemplate_def js_def

section \<open>The hash and the traffic split\<close>

text \<open>
  Claim C1, as the specification states it: for every seed, \<open>getHashPercent\<close> equals
  the reference computation in which every step \<open>hash = hash * 9 - charCode\<close> is carried
  out in 32-bit signed wrapping arithmetic. This fails for the seed of ten characters
  \<open>"0000000000"\<close>: the running hash of \<open>getHashPercent\<close> ends at \<open>-3740837216\<close>, outside
  the signed 32-bit range, and the result is 16, where the reference ends at
  \<open>554130080\<close> and gives 80 (the reference value is positive, so a remainder that
  rounds down gives 80 as well).
\<close>

theorem getHashPercent_int32_counterexample:
  "hashLoop (js ''0000000000'') 0 = - 3740837216
   \<and> sint (hashLoop32 (js ''0000000000'') 0) = 554130080
   \<and> getHashPercent (js ''0000000000'') = 16
   \<and> hashPercent_int32 (js ''0000000000'') = 80
   \<and> getHashPercent (js ''0000000000'') \<noteq> hashPercent_int32 (js ''0000000000'')"
  by (simp add: hash_eval)

text \<open>
  Claim C1, amended: only the shift of \<open>getHashPercent\<close> is truncated to 32 bits, its
  sum and difference are not wrapped. For every seed of up to \<open>2 ^ 21\<close> code units the
  running hash is congruent modulo \<open>2 ^ 32\<close> to the running value of the 32-bit
  reference, and \<open>getHashPercent\<close> equals the reference whenever its running hash ends
  within the signed 32-bit range.
\<close>

theorem getHashPercent_int32_relation:
  "length seed \<le> 2097152 \<Longrightarrow>
     (word_of_int (hashLoop seed 0) :: 32 word) = hashLoop32 seed 0
     \<and> (- (2 ^ 31) \<le> hashLoop seed 0 \<and> hashLoop seed 0 < 2 ^ 31
          \<longrightarrow> getHashPercent seed = hashPercent_int32 seed)"
proof -
  assume len: "length seed \<le> 2097152"
  have eq: "(word_of_int (hashLoop seed 0) :: 32 word) = hashLoop32 seed 0"
    using hashLoop_congruent [of 0 0 seed] len by simp
  have "getHashPercent seed = hashPercent_int32 seed"
    if "- (2 ^ 31) \<le> hashLoop seed 0" and "hashLoop seed 0 < 2 ^ 31"
    using sint_word_of_int_32 [OF that]
    by (simp add: getHashPercent_def hashPercent_int32_def flip: eq)
  with eq show ?thesis by blast
qed

theorem getHashPercent_int32_relation_witness:
  "length (js ''abc'') \<le> 2097152
   \<and> - (2 ^ 31) \<le> hashLoop (js ''abc'') 0 \<and> hashLoop (js ''abc'') 0 < 2 ^ 31
   \<and> (word_of_int (hashLoop (js ''abc'') 0) :: 32 word) = hashLoop32 (js ''abc'') 0
   \<and> getHashPercent (js ''abc'') = hashPercent_int32 (js ''abc'')
   \<and> getHashPercent (js ''abc'') = 38"
proof -
  have len: "length (js ''abc'') \<le> 2097152"
    by (simp add: js_def)
  have range: "- (2 ^ 31) \<le> hashLoop (js ''abc'') 0 \<and> hashLoop (js ''abc'') 0 < 2 ^ 31"
    by (simp add: hash_eval)
  have val: "getHashPercent (js ''abc'') = 38"
    by (simp add: hash_eval)
  from getHashPercent_int32_relation [OF len] range val len show ?thesis
    by blast
qed

text \<open>
  Claim C3: for every seed \<open>getHashPercent\<close> is an integer between 0 and 99; for the
  empty seed the loop body never runs and the result is 0; and \<open>isDestTransport\<close> of
  the empty id is false for every rollout percent.
\<close>

theorem getHashPercent_range:
  "0 \<le> getHashPercent seed \<and> getHashPercent seed \<le> 99
   \<and> hashLoop [] 0 = 0 \<and> getHashPercent [] = 0
   \<and> isDestTransport [] p = False"
  using getHashPercent_bounds [of seed]
  by (simp add: getHashPercent_def js_rem_def isDestTransport_def)

theorem getHashPercent_range_witness:
  "0 \<le> getHashPercent (js ''abc'') \<and> getHashPercent (js ''abc'') \<le> 99
   \<and> getHashPercent (js ''abc'') = 38
   \<and> isDestTransport [] (Fin 50) = False \<and> isDestTransport [] NaN = False"
  using getHashPercent_range [of "js ''abc''" "Fin 50"] getHashPercent_range [of "js ''abc''" NaN]
  by (simp add: hash_eval)

text \<open>
  Claim C4: \<open>isDestTransport\<close> is deterministic, its result depends on nothing but the
  id and the percent; and it is monotonic in the percent: if \<open>p <= p'\<close> and
  \<open>isDestTransport(id, p)\<close> then \<open>isDestTransport(id, p')\<close>.
\<close>

theorem isDestTransport_deterministic_monotonic:
  "(iid = iid' \<and> p = p' \<longrightarrow> isDestTransport iid p = isDestTransport iid' p')
   \<and> (js_le p p' \<and> isDestTransport iid p \<longrightarrow> isDestTransport iid p')"
  by (auto simp: isDestTransport_def dest: js_less_le_trans)

theorem isDestTransport_deterministic_monotonic_witness:
  "js_le (Fin 50) (Fin 75) \<and> isDestTransport (js ''abc'') (Fin 50)
   \<and> isDestTransport (js ''abc'') (Fin 75)"
proof -
  have le: "js_le (Fin 50) (Fin 75)"
    by (simp add: js_le_def)
  have low: "isDestTransport (js ''abc'') (Fin 50)"
    by (simp add: isDestTransport_def num_def hash_eval)
  from isDestTransport_deterministic_monotonic [of "js ''abc''" "js ''abc''" "Fin 50" "Fin 75"] le low
  show ?thesis by blast
qed

text \<open>
  Claim C10: \<open>isDestTransport\<close> does not validate the range of the rollout percent: for
  a non-empty id it is true for every percent \<open>p >= 100\<close> and false for every percent
  \<open>p <= 0\<close>.
\<close>

theorem isDestTransport_out_of_range:
  "iid \<noteq> [] \<Longrightarrow>
     (js_ge p (num 100) \<longrightarrow> isDestTransport iid p)
     \<and> (js_le p (num 0) \<longrightarrow> \<not> isDestTransport iid p)"
  using getHashPercent_bounds [of iid]
  by (cases p) (auto simp: isDestTransport_def js_ge_def js_le_def num_def)

theorem isDestTransport_out_of_range_witness:
  "js ''abc'' \<noteq> [] \<and> js_ge (Fin 250) (num 100) \<and> isDestTransport (js ''abc'') (Fin 250)
   \<and> js_le (Fin (- 5)) (num 0) \<and> \<not> isDestTransport (js ''abc'') (Fin (- 5))"
proof -
  have ne: "js ''abc'' \<noteq> []"
    by (simp add: js_def)
  have ge: "js_ge (Fin 250) (num 100)" and le: "js_le (Fin (- 5)) (num 0)"
    by (simp_all add: js_ge_def js_le_def num_def)
  from isDestTransport_out_of_range [OF ne, of "Fin 250"]
    isDestTransport_out_of_range [OF ne, of "Fin (- 5)"] ne ge le
  show ?thesis by blast
qed

section \<open>Applying a configuration\<close>

text \<open>
  Claim C2: for every response that is not absent and every installation id,
  \<open>processConfig\<close> sets \<open>shouldSendToTransport\<close> by the state: false if the state is
  absent, \<open>"INSTANCE_STATE_UNSPECIFIED"\<close> or \<open>"NO_TEMPLATE"\<close>, whether or not
  \<open>fpr_log_transport_web_percent\<close> is present; otherwise
  \<open>isDestTransport(iid, Number(fpr_log_transport_web_percent))\<close> if that key is present;
  otherwise true.
\<close>

theorem processConfig_shouldSendToTransport:
  "shouldSendToTransport (snd (processConfig env rnd iid (Some cfg) s)) =
     (if state cfg = None \<or> state cfg = Some (js ''INSTANCE_STATE_UNSPECIFIED'')
          \<or> state cfg = Some (js ''NO_TEMPLATE'')
      then False
      else (case entry fpr_log_transport_web_percent cfg of
              Some p \<Rightarrow> isDestTransport iid (Number env p)
            | None \<Rightarrow> True))"
  by (simp add: processConfig_def Let_def set_eqs entries_or_empty cong: option.case_cong if_cong)

theorem processConfig_shouldSendToTransport_witness:
  "shouldSendToTransport
     (snd (processConfig example_platform example_draws (js ''abc'') (Some example_response)
        example_settings))
     = isDestTransport (js ''abc'') (Fin 50)
   \<and> isDestTransport (js ''abc'') (Fin 50) = True
   \<and> shouldSendToTransport
       (snd (processConfig example_platform example_draws (js ''abc'')
          (Some (example_response\<lparr>state := Some (js ''NO_TEMPLATE'')\<rparr>)) example_settings))
     = False"
  using processConfig_shouldSendToTransport
      [of example_platform example_draws "js ''abc''" example_response example_settings]
    processConfig_shouldSendToTransport
      [of example_platform example_draws "js ''abc''"
          "example_response\<lparr>state := Some (js ''NO_TEMPLATE'')\<rparr>" example_settings]
  by (simp add: entry_def emptyTemplate_def example_response_def example_platform_def
      isDestTransport_def num_def hash_eval)

text \<open>
  Claim C7, as the specification states it: an explicit value in \<open>response.entries\<close>
  wins over the secondary default, which wins over leaving the setting unchanged. This
  fails for an explicit empty string: with \<open>fpr_log_source: ""\<close> the explicit value
  would give \<open>logSource = Number("") = 0\<close>, and \<open>processConfig\<close> leaves \<open>logSource\<close> as it
  was.
\<close>

theorem processConfig_precedence_counterexample:
  "entry fpr_log_source empty_source_response = Some []
   \<and> Number example_platform [] = Fin 0
   \<and> logSource example_settings = Fin 462
   \<and> logSource
       (snd (processConfig example_platform example_draws (js ''abc'')
          (Some empty_source_response) example_settings))
     = Fin 462
   \<and> logSource
       (snd (processConfig example_platform example_draws (js ''abc'')
          (Some empty_source_response) example_settings))
     \<noteq> Number example_platform []"
  by (simp add: pc_logSource entry_def empty_source_response_def emptyTemplate_def
      example_platform_def example_settings_def js_def)

text \<open>
  Claim C7, amended: for every response that is not absent, \<open>loggingEnabled\<close> becomes
  \<open>fpr_enabled === 'true'\<close> if \<open>fpr_enabled\<close> is present and the secondary default true
  if it is missing; \<open>logSource\<close>, \<open>logEndPointUrl\<close> and \<open>transportKey\<close> take the value
  of their key if it is present and not the empty string, and keep their value if the
  key is missing or empty; the two sampling rates take \<open>Number\<close> of their key if it is
  present and keep their value if it is missing.
\<close>

theorem processConfig_precedence:
  "loggingEnabled (snd (processConfig env rnd iid (Some cfg) s)) =
      (case entry fpr_enabled cfg of Some v \<Rightarrow> v = js ''true'' | None \<Rightarrow> True)
   \<and> logSource (snd (processConfig env rnd iid (Some cfg) s)) =
      (case entry fpr_log_source cfg of
         Some v \<Rightarrow> if v = [] then logSource s else Number env v
       | None \<Rightarrow> logSource s)
   \<and> logEndPointUrl (snd (processConfig env rnd iid (Some cfg) s)) =
      (case entry fpr_log_endpoint_url cfg of
         Some v \<Rightarrow> if v = [] then logEndPointUrl s else v
       | None \<Rightarrow> logEndPointUrl s)
   \<and> transportKey (snd (processConfig env rnd iid (Some cfg) s)) =
      (case entry fpr_log_transport_key cfg of
         Some v \<Rightarrow> if v = [] then transportKey s else v
       | None \<Rightarrow> transportKey s)
   \<and> networkRequestsSamplingRate (snd (processConfig env rnd iid (Some cfg) s)) =
      (case entry fpr_vc_network_request_sampling_rate cfg of
         Some v \<Rightarrow> Number env v
       | None \<Rightarrow> networkRequestsSamplingRate s)
   \<and> tracesSamplingRate (snd (processConfig env rnd iid (Some cfg) s)) =
      (case entry fpr_vc_trace_sampling_rate cfg of
         Some v \<Rightarrow> Number env v
       | None \<Rightarrow> tracesSamplingRate s)"
  by (simp only: pc_loggingEnabled pc_logSource pc_logEndPointUrl pc_transportKey
      pc_networkRequestsSamplingRate pc_tracesSamplingRate simp_thms)

theorem processConfig_precedence_witness:
  "loggingEnabled
     (snd (processConfig example_platform example_draws (js ''abc'') (Some example_response)
        example_settings)) = True
   \<and> loggingEnabled example_settings = False
   \<and> logSource
       (snd (processConfig example_platform example_draws (js ''abc'') (Some example_response)
          example_settings)) = logSource example_settings
   \<and> tracesSamplingRate
       (snd (processConfig example_platform example_draws (js ''abc'') (Some example_response)
          example_settings)) = tracesSamplingRate example_settings"
  using processConfig_precedence
      [of example_platform example_draws "js ''abc''" example_response example_settings]
  by (simp add: entry_def emptyTemplate_def example_response_def example_settings_def)

text \<open>
  Claim C8: for every installation id, \<open>processConfig\<close> applied to an absent response
  returns absent and leaves every field of the settings store as it was.
\<close>

theorem processConfig_absent:
  "processConfig env rnd iid None s = (None, s)"
  by (simp add: processConfig_def)

theorem processConfig_absent_witness:
  "processConfig example_platform example_draws (js ''abc'') None example_settings
     = (None, example_settings)"
  using processConfig_absent [of example_platform example_draws "js ''abc''" example_settings]
  by simp

section \<open>The cache and the resolution of the configuration\<close>

text \<open>
  Claim C6: a stored configuration is treated as valid exactly when the current time
  is strictly less than the stored expiry timestamp: \<open>configValid\<close> is that
  comparison, and \<open>getStoredConfig\<close> returns a response exactly when the expiry string
  is present, not empty and later than now, and the stored text is present, not empty
  and parses. A stored expiry equal to now is a cache miss. A store that ends normally
  has written the expiry \<open>now + configTimeToLive * 3600000\<close>.
\<close>

theorem config_expiry:
  "(configValid env now e \<longleftrightarrow> js_less (num now) (Number env e))
   \<and> (getStoredConfig env now (Some ls) = Some c \<longleftrightarrow>
        (\<exists>e j. getItem ls (CONFIG_EXPIRY_LOCAL_STORAGE_KEY env) = Some e \<and> e \<noteq> []
           \<and> js_less (num now) (Number env e)
           \<and> getItem ls (CONFIG_LOCAL_STORAGE_KEY env) = Some j \<and> j \<noteq> []
           \<and> JSON_parse env j = Inr c))
   \<and> (getItem lsb (CONFIG_EXPIRY_LOCAL_STORAGE_KEY env) = Some eb \<and> Number env eb = num nowb
        \<longrightarrow> getStoredConfig env nowb (Some lsb) = None)
   \<and> (fst (storeConfig env ts s (Some cfg) (Some lss)) = Inr ()
        \<longrightarrow> (\<exists>ls'. snd (storeConfig env ts s (Some cfg) (Some lss)) = Some ls'
               \<and> getItem ls' (CONFIG_EXPIRY_LOCAL_STORAGE_KEY env)
                   = Some (String env (ts + configTimeToLive s * 3600000))))"
proof -
  have boundary: "getStoredConfig env nowb (Some lsb) = None"
    if "getItem lsb (CONFIG_EXPIRY_LOCAL_STORAGE_KEY env) = Some eb" and "Number env eb = num nowb"
    using that by (simp add: getStoredConfig_def configValid_iff js_less_irrefl)
  show ?thesis
    using boundary storeConfig_resolved [of env ts s cfg lss]
    by (simp only: configValid_iff getStoredConfig_Some_iff simp_thms) blast
qed

theorem config_expiry_witness:
  "getStoredConfig example_platform 2000 (Some cached_storage) = Some example_response
   \<and> getItem cached_storage (CONFIG_EXPIRY_LOCAL_STORAGE_KEY example_platform) = Some (js ''43201000'')
   \<and> Number example_platform (js ''43201000'') = num 43201000
   \<and> getStoredConfig example_platform 43201000 (Some cached_storage) = None
   \<and> fst (storeConfig example_platform 1000 example_settings (Some example_response)
        (Some empty_storage)) = Inr ()
   \<and> (\<exists>ls'. snd (storeConfig example_platform 1000 example_settings (Some example_response)
                (Some empty_storage)) = Some ls'
          \<and> getItem ls' (CONFIG_EXPIRY_LOCAL_STORAGE_KEY example_platform)
              = Some (String example_platform (1000 + configTimeToLive example_settings * 3600000)))
   \<and> String example_platform (1000 + configTimeToLive example_settings * 3600000) = js ''43201000''"
proof -
  have item: "getItem cached_storage (CONFIG_EXPIRY_LOCAL_STORAGE_KEY example_platform)
      = Some (js ''43201000'')"
    by (simp add: getItem_def example_eval)
  have number: "Number example_platform (js ''43201000'') = num 43201000"
    by (simp add: num_def example_eval)
  have hit: "getStoredConfig example_platform 2000 (Some cached_storage) = Some example_response"
    by (simp add: getStoredConfig_def configValid_def js_greater_def getItem_def num_def example_eval)
  have stored: "fst (storeConfig example_platform 1000 example_settings (Some example_response)
        (Some empty_storage)) = Inr ()"
    by (simp add: storeConfig_def setItem_def example_eval)
  have string: "String example_platform (1000 + configTimeToLive example_settings * 3600000)
      = js ''43201000''"
    by (simp add: example_eval)
  from config_expiry [where env = example_platform and ls = cached_storage and now = 2000
      and c = example_response and lsb = cached_storage and eb = "js ''43201000''"
      and nowb = 43201000 and ts = 1000 and s = example_settings and cfg = example_response
      and lss = empty_storage]
    item number hit stored string
  show ?thesis by blast
qed

text \<open>
  Claim C9: a response stored by \<open>storeConfig\<close> and read back by \<open>getStoredConfig\<close>
  before the expiry is the response that was stored, so \<open>processConfig\<close> applied to
  it gives the settings that it gives on the original, also under different random
  draws once the two per-session flags are left aside. The storage must be present and
  accept the two writes, the two keys must differ, and the built-in functions must
  return what they return in JavaScript: \<open>JSON.parse\<close> undoes \<open>JSON.stringify\<close>,
  \<open>Number\<close> undoes \<open>String\<close>, and neither text is empty.
\<close>

theorem cache_round_trip:
  assumes "CONFIG_LOCAL_STORAGE_KEY env \<noteq> CONFIG_EXPIRY_LOCAL_STORAGE_KEY env"
    and "JSON_parse env (JSON_stringify env cfg) = Inr cfg"
    and "JSON_stringify env cfg \<noteq> []"
    and "Number env (String env (t0 + configTimeToLive s0 * 3600000))
           = num (t0 + configTimeToLive s0 * 3600000)"
    and "String env (t0 + configTimeToLive s0 * 3600000) \<noteq> []"
    and "\<not> refuses ls (CONFIG_LOCAL_STORAGE_KEY env) (JSON_stringify env cfg)"
    and "\<not> refuses ls (CONFIG_EXPIRY_LOCAL_STORAGE_KEY env)
             (String env (t0 + configTimeToLive s0 * 3600000))"
    and "t1 < t0 + configTimeToLive s0 * 3600000"
  shows "fst (storeConfig env t0 s0 (Some cfg) (Some ls)) = Inr ()
     \<and> getStoredConfig env t1 (snd (storeConfig env t0 s0 (Some cfg) (Some ls))) = Some cfg
     \<and> processConfig env rnd iid
         (getStoredConfig env t1 (snd (storeConfig env t0 s0 (Some cfg) (Some ls)))) s
       = processConfig env rnd iid (Some cfg) s
     \<and> withoutDraws (snd (processConfig env rnd iid
         (getStoredConfig env t1 (snd (storeConfig env t0 s0 (Some cfg) (Some ls)))) s))
       = withoutDraws (snd (processConfig env rnd' iid (Some cfg) s))"
proof -
  let ?expiry = "t0 + configTimeToLive s0 * 3600000"
  let ?ls' = "ls\<lparr>items := (items ls)
        (CONFIG_LOCAL_STORAGE_KEY env \<mapsto> JSON_stringify env cfg,
         CONFIG_EXPIRY_LOCAL_STORAGE_KEY env \<mapsto> String env ?expiry)\<rparr>"
  have store: "storeConfig env t0 s0 (Some cfg) (Some ls) = (Inr (), Some ?ls')"
    using assms(6,7) by (rule storeConfig_accepted)
  have less: "js_less (num t1) (Number env (String env ?expiry))"
    using assms(8) by (simp add: assms(4) num_def)
  have "getStoredConfig env t1 (Some ?ls') = Some cfg"
    unfolding getStoredConfig_Some_iff
    using assms(1,2,3,5) less by (simp add: getItem_def)
  with store have read:
    "getStoredConfig env t1 (snd (storeConfig env t0 s0 (Some cfg) (Some ls))) = Some cfg"
    by simp
  have "fst (storeConfig env t0 s0 (Some cfg) (Some ls)) = Inr ()"
    by (simp add: store)
  then show ?thesis
    unfolding read using processConfig_withoutDraws [of env rnd iid "Some cfg" s rnd']
    by simp
qed

theorem cache_round_trip_witness:
  "fst (storeConfig example_platform 1000 example_settings (Some example_response)
        (Some empty_storage)) = Inr ()
   \<and> getStoredConfig example_platform 2000
       (snd (storeConfig example_platform 1000 example_settings (Some example_response)
          (Some empty_storage))) = Some example_response
   \<and> processConfig example_platform example_draws (js ''abc'')
       (getStoredConfig example_platform 2000
          (snd (storeConfig example_platform 1000 example_settings (Some example_response)
             (Some empty_storage)))) example_settings
     = processConfig example_platform example_draws (js ''abc'') (Some example_response)
         example_settings"
proof -
  have ttl: "1000 + configTimeToLive example_settings * 3600000 = 43201000"
    by (simp add: example_settings_def)
  have keys: "CONFIG_LOCAL_STORAGE_KEY example_platform \<noteq> CONFIG_EXPIRY_LOCAL_STORAGE_KEY example_platform"
    by (simp add: example_eval)
  have parse: "JSON_parse example_platform (JSON_stringify example_platform example_response)
      = Inr example_response"
    by (simp add: example_platform_def)
  have json: "JSON_stringify example_platform example_response \<noteq> []"
    by (simp add: example_platform_def example_json_def js_def)
  have number: "Number example_platform
        (String example_platform (1000 + configTimeToLive example_settings * 3600000))
      = num (1000 + configTimeToLive example_settings * 3600000)"
    unfolding ttl by (simp add: num_def example_platform_def js_def)
  have string: "String example_platform (1000 + configTimeToLive example_settings * 3600000) \<noteq> []"
    unfolding ttl by (simp add: example_platform_def js_def)
  have accepted:
    "\<not> refuses empty_storage (CONFIG_LOCAL_STORAGE_KEY example_platform)
         (JSON_stringify example_platform example_response)"
    "\<not> refuses empty_storage (CONFIG_EXPIRY_LOCAL_STORAGE_KEY example_platform)
         (String example_platform (1000 + configTimeToLive example_settings * 3600000))"
    by (simp_all add: empty_storage_def)
  have before: "(2000::int) < 1000 + configTimeToLive example_settings * 3600000"
    unfolding ttl by simp
  from cache_round_trip [OF keys parse json number string accepted before,
      of example_draws "js ''abc''" example_settings example_draws]
  show ?thesis by blast
qed

text \<open>
  Claim C5 says that \<open>getConfig\<close> always resolves, also when persisting the fetched
  configuration fails. In the run \<open>full_storage_world\<close> nothing is cached, the fetch
  succeeds and \<open>localStorage.setItem\<close> throws: the exception leaves \<open>storeConfig\<close>
  inside the fulfilment handler of the last \<open>then\<close>, whose rejection handler does not
  apply to it, and the promise of \<open>getConfig\<close> rejects.
\<close>

theorem getConfig_rejects_when_storage_refuses:
  "getStoredConfig example_platform (readTime full_storage_world) (localStorage full_storage_world) = None
   \<and> getRemoteConfig example_platform full_storage_world example_settings (js ''abc'')
       = Inr (Some example_response)
   \<and> fst (getConfig example_platform full_storage_world (js ''abc'') example_settings)
       = Inl QuotaExceededError"
  by (simp add: getConfig_def getStoredConfig_def full_storage_world_def full_storage_def getItem_def
     getRemoteConfig_def fetchConfig_def example_settings_def example_fetch_def processConfig_def
     storeConfig_def setItem_def Let_def)

end
